theory Spec2Isabelle
  imports Main "HOL-Library.Sublist"
begin

section \<open>The image accelerator: accelerate\_docker\_pull.py\<close>

text \<open>
  A shallow embedding of \<^verbatim>\<open>skills/docker-image-accelerator/scripts/accelerate_docker_pull.py\<close>.
  A Python \<^verbatim>\<open>str\<close> is modelled as a \<^typ>\<open>string\<close>, the list of the bytes of its UTF-8
  encoding. The script only ever searches for, splits on and compares with the ASCII
  characters \<^verbatim>\<open>/\<close>, \<^verbatim>\<open>.\<close> and \<^verbatim>\<open>:\<close> and ASCII literals; no byte of a multi-byte UTF-8
  sequence is an ASCII byte, so membership, splitting, prefix tests and concatenation on
  the bytes agree with the same operations on code points.
\<close>

subsection \<open>String primitives of Python used by the script\<close>

text \<open>\<^verbatim>\<open>s.split(sep)\<close> for a separator of one character: never empty, one more part
  than there are separators.\<close>

fun split_on :: "char \<Rightarrow> string \<Rightarrow> string list" where
  "split_on sep [] = [[]]"
| "split_on sep (c # cs) =
     (if c = sep then [] # split_on sep cs
      else (c # hd (split_on sep cs)) # tl (split_on sep cs))"

text \<open>\<^verbatim>\<open>s.split(sep, maxsplit)\<close> for a separator of one character and \<open>maxsplit \<ge> 0\<close>:
  at most \<open>maxsplit\<close> cuts, from the left; the last part keeps the remaining separators.\<close>

fun split_max :: "char \<Rightarrow> nat \<Rightarrow> string \<Rightarrow> string list" where
  "split_max sep 0 s = [s]"
| "split_max sep (Suc n) [] = [[]]"
| "split_max sep (Suc n) (c # cs) =
     (if c = sep then [] # split_max sep n cs
      else (c # hd (split_max sep (Suc n) cs)) # tl (split_max sep (Suc n) cs))"

subsection \<open>The mirror table\<close>

definition REGISTRY_MIRRORS :: "string \<rightharpoonup> string" where
  "REGISTRY_MIRRORS = map_of
    [(''docker.io'', ''m.daocloud.io/docker.io''),
     (''gcr.io'', ''m.daocloud.io/gcr.io''),
     (''ghcr.io'', ''m.daocloud.io/ghcr.io''),
     (''k8s.gcr.io'', ''m.daocloud.io/k8s.gcr.io''),
     (''registry.k8s.io'', ''m.daocloud.io/registry.k8s.io''),
     (''quay.io'', ''m.daocloud.io/quay.io''),
     (''k8s-gcr.m.daocloud.io'', ''m.daocloud.io/k8s.gcr.io''),
     (''docker.m.daocloud.io'', ''m.daocloud.io/docker.io''),
     (''elastic.m.daocloud.io'', ''m.daocloud.io/docker.elastic.co''),
     (''gcr.m.daocloud.io'', ''m.daocloud.io/gcr.io''),
     (''ghcr.m.daocloud.io'', ''m.daocloud.io/ghcr.io''),
     (''k8s.m.daocloud.io'', ''m.daocloud.io/registry.k8s.io''),
     (''mcr.m.daocloud.io'', ''m.daocloud.io/mcr.microsoft.com''),
     (''nvcr.m.daocloud.io'', ''m.daocloud.io/nvcr.io''),
     (''quay.m.daocloud.io'', ''m.daocloud.io/quay.io'')]"

subsection \<open>normalize\_image\_name and convert\_to\_mirror\_image\<close>

definition normalize_image_name :: "string \<Rightarrow> string" where
  "normalize_image_name img =
     (if CHR ''/'' \<notin> set img then ''docker.io/library/'' @ img
      else
        let parts = split_on CHR ''/'' img in
        if length parts = 2 \<and> CHR ''.'' \<notin> set (parts ! 0) \<and> CHR '':'' \<notin> set (parts ! 0)
        then ''docker.io/'' @ img
        else img)"

text \<open>The result is Python's \<^verbatim>\<open>Optional[str]\<close>: \<open>None\<close> is \<^verbatim>\<open>None\<close>.\<close>

definition convert_to_mirror_image :: "string \<Rightarrow> string option" where
  "convert_to_mirror_image img =
     (let parts = split_max CHR ''/'' (Suc 0) img in
      if length parts < 2 then None
      else
        let registry = parts ! 0;
            rest = (if length parts > 1 then parts ! 1 else [])
        in
          case REGISTRY_MIRRORS registry of
            Some mirror_registry \<Rightarrow>
              Some (if rest \<noteq> [] then mirror_registry @ ''/'' @ rest else mirror_registry)
          | None \<Rightarrow>
              if prefix ''m.daocloud.io/'' img then Some img
              else Some (''m.daocloud.io/'' @ img))"

subsection \<open>The container runtime and the console\<close>

text \<open>
  What \<^verbatim>\<open>subprocess.run\<close> can do with a command: the process runs to its end and gives a
  return code, its standard output and its standard error; or the call raises an exception
  other than \<^verbatim>\<open>CalledProcessError\<close> (the executable is missing, say), whose message is
  kept. The runtime is a parameter: it answers each command in the current state of the
  world and changes that state.
\<close>

datatype proc_outcome = Completed int string string | Raised string

type_synonym 'w runtime = "string list \<Rightarrow> 'w \<Rightarrow> proc_outcome \<times> 'w"

text \<open>What the script does to its surroundings, in order: the lines it prints and the
  commands it hands to \<^verbatim>\<open>subprocess.run\<close>.\<close>

datatype event = Printed string | Invoked "string list"

type_synonym 'w state = "'w \<times> event list"

definition print :: "string \<Rightarrow> 'w state \<Rightarrow> 'w state" where
  "print line st = (fst st, snd st @ [Printed line])"

text \<open>The exceptions that leave \<^verbatim>\<open>subprocess.run\<close>.\<close>

datatype exn = CalledProcessError int string string | OtherError string

definition subprocess_run ::
  "'w runtime \<Rightarrow> string list \<Rightarrow> bool \<Rightarrow> 'w state \<Rightarrow> (exn + int \<times> string \<times> string) \<times> 'w state" where
  "subprocess_run rt command check st =
     (case rt command (fst st) of
        (Completed returncode out err, w') \<Rightarrow>
          (if check \<and> returncode \<noteq> 0 then Inl (CalledProcessError returncode out err)
           else Inr (returncode, out, err),
           (w', snd st @ [Invoked command]))
      | (Raised msg, w') \<Rightarrow> (Inl (OtherError msg), (w', snd st @ [Invoked command])))"

text \<open>\<^verbatim>\<open>run_command\<close> catches \<^verbatim>\<open>CalledProcessError\<close> only; any other exception goes on to
  the caller, here as \<open>Inl\<close> of its message.\<close>

definition run_command ::
  "'w runtime \<Rightarrow> string list \<Rightarrow> bool \<Rightarrow> 'w state \<Rightarrow> (string + int \<times> string \<times> string) \<times> 'w state" where
  "run_command rt command check st =
     (case subprocess_run rt command check st of
        (Inr result, st') \<Rightarrow> (Inr result, st')
      | (Inl (CalledProcessError returncode out err), st') \<Rightarrow> (Inr (returncode, out, err), st')
      | (Inl (OtherError msg), st') \<Rightarrow> (Inl msg, st'))"

definition pull_image ::
  "'w runtime \<Rightarrow> string \<Rightarrow> 'w state \<Rightarrow> (string + int \<times> string \<times> string) \<times> 'w state" where
  "pull_image rt img st =
     run_command rt [''docker'', ''pull'', img] True (print (''[INFO] Pulling image: '' @ img) st)"

definition tag_image ::
  "'w runtime \<Rightarrow> string \<Rightarrow> string \<Rightarrow> 'w state \<Rightarrow> (string + int \<times> string \<times> string) \<times> 'w state" where
  "tag_image rt source target st =
     run_command rt [''docker'', ''tag'', source, target] True
       (print (''[INFO] Tagging: '' @ source @ '' -> '' @ target) st)"

definition remove_image ::
  "'w runtime \<Rightarrow> string \<Rightarrow> 'w state \<Rightarrow> (string + int \<times> string \<times> string) \<times> 'w state" where
  "remove_image rt img st =
     run_command rt [''docker'', ''rmi'', img] False
       (print (''[INFO] Removing mirror tag: '' @ img) st)"

subsection \<open>accelerate\_pull\<close>

text \<open>The body of the \<^verbatim>\<open>try\<close> block: \<open>Inr\<close> is the value returned, \<open>Inl\<close> the message of
  an exception that left it. \<^verbatim>\<open>not mirror_image\<close> holds of \<^verbatim>\<open>None\<close> and of the empty
  string.\<close>

definition accelerate_pull_body ::
  "'w runtime \<Rightarrow> string \<Rightarrow> 'w state \<Rightarrow> (string + bool) \<times> 'w state" where
  "accelerate_pull_body rt original_image st0 =
     (let normalized_image = normalize_image_name original_image;
          st1 = print (''[INFO] Original image: '' @ original_image) st0;
          st2 = print (''[INFO] Normalized: '' @ normalized_image) st1;
          unsupported =
            (Inr False,
             print (''[ERROR] Unsupported image source '' @ [CHR 0x27] @ original_image @ [CHR 0x27]) st2)
      in
        case convert_to_mirror_image normalized_image of
          None \<Rightarrow> unsupported
        | Some mirror_image \<Rightarrow>
            if mirror_image = [] then unsupported
            else
              let st3 = print (''[INFO] Mirror image: '' @ mirror_image) st2 in
              case pull_image rt mirror_image st3 of
                (Inl e, st4) \<Rightarrow> (Inl e, st4)
              | (Inr (returncode, out, err), st4) \<Rightarrow>
                  if returncode \<noteq> 0 then (Inr False, print (''[ERROR] Pull failed: '' @ err) st4)
                  else
                    let st5 = print ''[SUCCESS] Pull completed'' st4;
                        target_image =
                          (if CHR ''/'' \<in> set original_image then original_image
                           else normalized_image)
                    in
                      case tag_image rt mirror_image target_image st5 of
                        (Inl e, st6) \<Rightarrow> (Inl e, st6)
                      | (Inr (returncode, out, err), st6) \<Rightarrow>
                          let st7 =
                                (if returncode \<noteq> 0
                                 then print (''[WARNING] Rename warning: '' @ err) st6
                                 else print ''[SUCCESS] Rename completed'' st6);
                              cleanup =
                                (if mirror_image \<noteq> target_image then
                                   case remove_image rt mirror_image st7 of
                                     (Inl e, st8) \<Rightarrow> (Inl e, st8)
                                   | (Inr (returncode, out, err), st8) \<Rightarrow>
                                       (Inr (),
                                        if returncode \<noteq> 0
                                        then print (''[WARNING] Cleanup warning: '' @ err) st8
                                        else print ''[SUCCESS] Cleanup completed'' st8)
                                 else (Inr (), st7))
                          in
                            case cleanup of
                              (Inl e, st9) \<Rightarrow> (Inl e, st9)
                            | (Inr u, st9) \<Rightarrow>
                                (Inr True,
                                 print ([CHR 0x0A] @ ''[SUCCESS] Image '' @ [CHR 0x27] @ target_image
                                        @ [CHR 0x27] @ '' pulled and configured successfully!'') st9))"

text \<open>The \<^verbatim>\<open>except Exception\<close> handler around the body.\<close>

definition accelerate_pull :: "'w runtime \<Rightarrow> string \<Rightarrow> 'w state \<Rightarrow> bool \<times> 'w state" where
  "accelerate_pull rt original_image st =
     (case accelerate_pull_body rt original_image st of
        (Inr ok, st') \<Rightarrow> (ok, st')
      | (Inl e, st') \<Rightarrow> (False, print (''[ERROR] Exception occurred: '' @ e) st'))"

subsection \<open>main\<close>

text \<open>\<^verbatim>\<open>str\<close> of a counter, which is never negative.\<close>

fun str_nat :: "nat \<Rightarrow> string" where
  "str_nat n =
     (if n < 10 then [char_of (48 + n)]
      else str_nat (n div 10) @ [char_of (48 + n mod 10)])"

declare str_nat.simps [simp del]

text \<open>The usage text, the bytes of its UTF-8 encoding written out where they are not ASCII.\<close>

definition usage_lines :: "string list" where
  "usage_lines =
     [[CHR 0xE7, CHR 0x94, CHR 0xA8, CHR 0xE6, CHR 0xB3, CHR 0x95]
        @ '': python accelerate_docker_pull.py <''
        @ [CHR 0xE9, CHR 0x95, CHR 0x9C, CHR 0xE5, CHR 0x83, CHR 0x8F,
           CHR 0xE5, CHR 0x90, CHR 0x8D, CHR 0xE7, CHR 0xA7, CHR 0xB0]
        @ ''> [''
        @ [CHR 0xE9, CHR 0x95, CHR 0x9C, CHR 0xE5, CHR 0x83, CHR 0x8F,
           CHR 0xE5, CHR 0x90, CHR 0x8D, CHR 0xE7, CHR 0xA7, CHR 0xB0]
        @ ''2] ...'',
      [CHR 0x0A, CHR 0xE7, CHR 0xA4, CHR 0xBA, CHR 0xE4, CHR 0xBE, CHR 0x8B] @ '':'',
      ''  python accelerate_docker_pull.py nginx:latest'',
      ''  python accelerate_docker_pull.py gcr.io/pause:3.1'',
      ''  python accelerate_docker_pull.py python:3.9-slim'']"

text \<open>The five lines printed before the loop.\<close>

definition banner :: "'w state \<Rightarrow> 'w state" where
  "banner st0 =
     (let st1 = print (replicate 60 CHR ''='') st0;
          st2 = print ''[INFO] Docker Image Accelerator'' st1;
          st3 = print ''[INFO] Using DaoCloud mirror for acceleration'' st2;
          st4 = print (replicate 60 CHR ''='') st3
      in print [] st4)"

text \<open>The \<^verbatim>\<open>for\<close> loop of \<^verbatim>\<open>main\<close>, with its two counters.\<close>

fun process_images ::
  "'w runtime \<Rightarrow> string list \<Rightarrow> nat \<times> nat \<Rightarrow> 'w state \<Rightarrow> (nat \<times> nat) \<times> 'w state" where
  "process_images rt [] (success_count, failed_count) st = ((success_count, failed_count), st)"
| "process_images rt (img # images) (success_count, failed_count) st =
     (case accelerate_pull rt img (print ([CHR 0x0A] @ replicate 60 CHR ''='') st) of
        (ok, st') \<Rightarrow>
          if ok then process_images rt images (success_count + 1, failed_count) st'
          else process_images rt images (success_count, failed_count + 1) st')"

text \<open>The three lines of the summary.\<close>

definition summary :: "nat \<Rightarrow> nat \<Rightarrow> 'w state \<Rightarrow> 'w state" where
  "summary success_count failed_count st0 =
     (let st1 = print ([CHR 0x0A] @ replicate 60 CHR ''='') st0;
          st2 = print (''[SUMMARY] Success: '' @ str_nat success_count
                       @ '', Failed: '' @ str_nat failed_count) st1
      in print (replicate 60 CHR ''='' @ [CHR 0x0A]) st2)"

text \<open>\<^verbatim>\<open>main\<close> on \<^verbatim>\<open>sys.argv\<close>: the value is the status given to \<^verbatim>\<open>sys.exit\<close>.\<close>

definition main :: "'w runtime \<Rightarrow> string list \<Rightarrow> 'w state \<Rightarrow> int \<times> 'w state" where
  "main rt argv st =
     (if length argv < 2 then (1, fold print usage_lines st)
      else
        let images = drop 1 argv in
        case process_images rt images (0, 0) (banner st) of
          ((success_count, failed_count), st') \<Rightarrow>
            (if failed_count = 0 then 0 else 1, summary success_count failed_count st'))"

subsection \<open>Vocabulary of the statements\<close>

text \<open>The commands of a log, in order.\<close>

fun invoked :: "event list \<Rightarrow> string list list" where
  "invoked [] = []"
| "invoked (Printed l # es) = invoked es"
| "invoked (Invoked c # es) = c # invoked es"


text \<open>
  The batch as the specification words it: every image goes through \<open>accelerate_pull\<close>,
  one after the other, whatever became of the images before it; the outcomes are kept
  in order.
\<close>

fun batch_outcomes :: "'w runtime \<Rightarrow> string list \<Rightarrow> 'w state \<Rightarrow> bool list \<times> 'w state" where
  "batch_outcomes rt [] st = ([], st)"
| "batch_outcomes rt (img # images) st =
     (case accelerate_pull rt img (print ([CHR 0x0A] @ replicate 60 CHR ''='') st) of
        (ok, st') \<Rightarrow>
          (case batch_outcomes rt images st' of (oks, st'') \<Rightarrow> (ok # oks, st'')))"

subsection \<open>Runtimes for the examples\<close>

text \<open>A runtime without state that pulls every reference but one, and fails every tag
  and every removal.\<close>

definition flaky_runtime :: "unit runtime" where
  "flaky_runtime command w =
     (if command = [''docker'', ''pull'', ''m.daocloud.io/docker.io/library/missing'']
      then (Completed 1 [] ''manifest unknown'', w)
      else if take 2 command = [''docker'', ''pull''] then (Completed 0 ''pulled'' [], w)
      else (Completed 1 [] ''daemon error'', w))"

text \<open>A runtime without state that pulls every reference, and fails every tag and every
  removal.\<close>

definition warning_runtime :: "unit runtime" where
  "warning_runtime command w =
     (if take 2 command = [''docker'', ''pull''] then (Completed 0 ''pulled'' [], w)
      else (Completed 1 [] ''daemon error'', w))"



section \<open>Facts about the string primitives\<close>

lemma split_on_nonempty: "split_on sep s \<noteq> []"
  by (induction s) simp_all

lemma split_on_length: "length (split_on sep s) = Suc (count_list s sep)"
proof (induction s)
  case Nil
  show ?case by simp
next
  case (Cons c cs)
  have "length (tl (split_on sep cs)) = count_list cs sep"
    using Cons.IH by simp
  then show ?case using Cons.IH by simp
qed

lemma split_on_first: "split_on sep s ! 0 = takeWhile (\<lambda>c. c \<noteq> sep) s"
proof (induction s)
  case Nil
  show ?case by simp
next
  case (Cons c cs)
  then show ?case
    using split_on_nonempty [of sep cs] by (simp add: hd_conv_nth)
qed

lemma split_max_one_no_sep:
  "sep \<notin> set s \<Longrightarrow> split_max sep (Suc 0) s = [s]"
proof (induction s)
  case Nil
  show ?case by simp
next
  case (Cons c cs)
  then show ?case by auto
qed

lemma split_max_one_sep:
  "sep \<notin> set r \<Longrightarrow> split_max sep (Suc 0) (r @ sep # t) = [r, t]"
proof (induction r)
  case Nil
  show ?case by simp
next
  case (Cons c cs)
  then show ?case by auto
qed

lemma split_at_first_sep:
  assumes "sep \<in> set s"
  obtains r t where "s = r @ sep # t" and "sep \<notin> set r"
  using assms split_list_first [of sep s] by blast

section \<open>Facts about the mirror table\<close>

lemma REGISTRY_MIRRORS_prefix:
  assumes "REGISTRY_MIRRORS r = Some m"
  shows "prefix ''m.daocloud.io/'' m"
proof -
  have "(r, m) \<in> set
    [(''docker.io'', ''m.daocloud.io/docker.io''),
     (''gcr.io'', ''m.daocloud.io/gcr.io''),
     (''ghcr.io'', ''m.daocloud.io/ghcr.io''),
     (''k8s.gcr.io'', ''m.daocloud.io/k8s.gcr.io''),
     (''registry.k8s.io'', ''m.daocloud.io/registry.k8s.io''),
     (''quay.io'', ''m.daocloud.io/quay.io''),
     (''k8s-gcr.m.daocloud.io'', ''m.daocloud.io/k8s.gcr.io''),
     (''docker.m.daocloud.io'', ''m.daocloud.io/docker.io''),
     (''elastic.m.daocloud.io'', ''m.daocloud.io/docker.elastic.co''),
     (''gcr.m.daocloud.io'', ''m.daocloud.io/gcr.io''),
     (''ghcr.m.daocloud.io'', ''m.daocloud.io/ghcr.io''),
     (''k8s.m.daocloud.io'', ''m.daocloud.io/registry.k8s.io''),
     (''mcr.m.daocloud.io'', ''m.daocloud.io/mcr.microsoft.com''),
     (''nvcr.m.daocloud.io'', ''m.daocloud.io/nvcr.io''),
     (''quay.m.daocloud.io'', ''m.daocloud.io/quay.io'')]"
    using assms unfolding REGISTRY_MIRRORS_def by (rule map_of_SomeD)
  then have "\<exists>t. m = ''m.daocloud.io/'' @ t"
    by (elim set_ConsD [elim_format] disjE) simp_all
  then show ?thesis by (auto simp: prefix_def)
qed

lemma REGISTRY_MIRRORS_host: "REGISTRY_MIRRORS ''m.daocloud.io'' = None"
  by (simp add: REGISTRY_MIRRORS_def)

section \<open>Facts about normalisation and mirror resolution\<close>

lemma convert_no_slash:
  "CHR ''/'' \<notin> set img \<Longrightarrow> convert_to_mirror_image img = None"
  by (simp add: convert_to_mirror_image_def split_max_one_no_sep)

lemma convert_slash:
  assumes "CHR ''/'' \<notin> set r"
  shows "convert_to_mirror_image (r @ CHR ''/'' # t) =
    (case REGISTRY_MIRRORS r of
       Some m \<Rightarrow> Some (if t \<noteq> [] then m @ ''/'' @ t else m)
     | None \<Rightarrow> if prefix ''m.daocloud.io/'' (r @ CHR ''/'' # t) then Some (r @ CHR ''/'' # t)
               else Some (''m.daocloud.io/'' @ r @ CHR ''/'' # t))"
  by (simp add: convert_to_mirror_image_def split_max_one_sep [OF assms] Let_def)

lemma convert_None_iff:
  "convert_to_mirror_image img = None \<longleftrightarrow> CHR ''/'' \<notin> set img"
proof (cases "CHR ''/'' \<in> set img")
  case True
  then obtain r t where img: "img = r @ CHR ''/'' # t" and r: "CHR ''/'' \<notin> set r"
    by (rule split_at_first_sep)
  have "convert_to_mirror_image (r @ CHR ''/'' # t) \<noteq> None"
    unfolding convert_slash [OF r] by (simp split: option.split)
  with True img show ?thesis by simp
next
  case False
  then show ?thesis by (simp add: convert_no_slash)
qed

lemma convert_prefix:
  assumes "convert_to_mirror_image img = Some m"
  shows "prefix ''m.daocloud.io/'' m"
proof -
  have "CHR ''/'' \<in> set img"
    using assms convert_None_iff [of img] by auto
  then obtain r t where img: "img = r @ CHR ''/'' # t" and r: "CHR ''/'' \<notin> set r"
    by (rule split_at_first_sep)
  show ?thesis
  proof (cases "REGISTRY_MIRRORS r")
    case None
    then show ?thesis
      using assms unfolding img convert_slash [OF r]
      by (auto split: if_splits)
  next
    case (Some p)
    then have "prefix ''m.daocloud.io/'' p" by (rule REGISTRY_MIRRORS_prefix)
    then have "prefix ''m.daocloud.io/'' (p @ ''/'' @ t)" by (rule prefix_prefix)
    then show ?thesis
      using assms Some \<open>prefix ''m.daocloud.io/'' p\<close> unfolding img convert_slash [OF r]
      by (auto split: if_splits)
  qed
qed

lemma normalize_has_slash: "CHR ''/'' \<in> set (normalize_image_name raw)"
  by (simp add: normalize_image_name_def Let_def)

lemma normalize_mirrored:
  assumes "prefix ''m.daocloud.io/'' s"
  shows "normalize_image_name s = s"
proof -
  obtain t where s: "s = ''m.daocloud.io'' @ CHR ''/'' # t"
    using assms by (auto simp: prefix_def)
  have "split_on CHR ''/'' s ! 0 = ''m.daocloud.io''"
    unfolding split_on_first s by simp
  moreover have "CHR ''/'' \<in> set s"
    unfolding s by simp
  ultimately show ?thesis
    by (simp add: normalize_image_name_def Let_def)
qed

lemma convert_mirrored:
  assumes "prefix ''m.daocloud.io/'' s"
  shows "convert_to_mirror_image s = Some s"
proof -
  obtain t where s: "s = ''m.daocloud.io'' @ CHR ''/'' # t"
    using assms by (auto simp: prefix_def)
  have "CHR ''/'' \<notin> set ''m.daocloud.io''" by simp
  from convert_slash [OF this, of t] show ?thesis
    unfolding s by (simp add: REGISTRY_MIRRORS_host)
qed

section \<open>Facts about the orchestration\<close>

text \<open>One lemma for each way through \<open>accelerate_pull\<close>: the value returned, the world left
  behind and the whole log.\<close>

lemma print_pair: "print l (w, ev) = (w, ev @ [Printed l])"
  by (simp add: print_def)

lemma invoked_append: "invoked (xs @ ys) = invoked xs @ invoked ys"
  by (induction xs rule: invoked.induct) simp_all


lemma run_command_completed:
  "rt command w = (Completed rc out err, w') \<Longrightarrow>
   run_command rt command check (w, ev) = (Inr (rc, out, err), (w', ev @ [Invoked command]))"
  by (simp add: run_command_def subprocess_run_def)

lemma run_command_raised:
  "rt command w = (Raised msg, w') \<Longrightarrow>
   run_command rt command check (w, ev) = (Inl msg, (w', ev @ [Invoked command]))"
  by (simp add: run_command_def subprocess_run_def)

lemma resolve_ok:
  obtains m where "convert_to_mirror_image (normalize_image_name raw) = Some m"
    and "m \<noteq> []" and "prefix ''m.daocloud.io/'' m"
proof -
  have "convert_to_mirror_image (normalize_image_name raw) \<noteq> None"
    by (simp add: convert_None_iff normalize_has_slash)
  then obtain m where m: "convert_to_mirror_image (normalize_image_name raw) = Some m"
    by blast
  then have p: "prefix ''m.daocloud.io/'' m" by (rule convert_prefix)
  then have n: "m \<noteq> []" by auto
  show ?thesis by (rule that [OF m n p])
qed

lemma mirror_nonempty:
  "convert_to_mirror_image n = Some m \<Longrightarrow> m \<noteq> []"
  using convert_prefix [of n m] by auto

lemma accelerate_pull_pull_failed:
  assumes m: "convert_to_mirror_image (normalize_image_name img) = Some m"
    and pull: "rt [''docker'', ''pull'', m] w = (Completed rc out err, w1)"
    and rc: "rc \<noteq> 0"
  shows "accelerate_pull rt img (w, ev) =
    (False, w1, ev @
      [Printed (''[INFO] Original image: '' @ img),
       Printed (''[INFO] Normalized: '' @ normalize_image_name img),
       Printed (''[INFO] Mirror image: '' @ m),
       Printed (''[INFO] Pulling image: '' @ m),
       Invoked [''docker'', ''pull'', m],
       Printed (''[ERROR] Pull failed: '' @ err)])"
  using mirror_nonempty [OF m] rc pull
  by (simp add: accelerate_pull_def accelerate_pull_body_def Let_def m pull_image_def
      print_pair run_command_completed)

lemma accelerate_pull_pull_raised:
  assumes m: "convert_to_mirror_image (normalize_image_name img) = Some m"
    and pull: "rt [''docker'', ''pull'', m] w = (Raised msg, w1)"
  shows "accelerate_pull rt img (w, ev) =
    (False, w1, ev @
      [Printed (''[INFO] Original image: '' @ img),
       Printed (''[INFO] Normalized: '' @ normalize_image_name img),
       Printed (''[INFO] Mirror image: '' @ m),
       Printed (''[INFO] Pulling image: '' @ m),
       Invoked [''docker'', ''pull'', m],
       Printed (''[ERROR] Exception occurred: '' @ msg)])"
  using mirror_nonempty [OF m] pull
  by (simp add: accelerate_pull_def accelerate_pull_body_def Let_def m pull_image_def
      print_pair run_command_raised)

lemma accelerate_pull_tag_raised:
  assumes m: "convert_to_mirror_image (normalize_image_name img) = Some m"
    and pull: "rt [''docker'', ''pull'', m] w = (Completed 0 out err, w1)"
    and t: "t = (if CHR ''/'' \<in> set img then img else normalize_image_name img)"
    and tag: "rt [''docker'', ''tag'', m, t] w1 = (Raised msg, w2)"
  shows "accelerate_pull rt img (w, ev) =
    (False, w2, ev @
      [Printed (''[INFO] Original image: '' @ img),
       Printed (''[INFO] Normalized: '' @ normalize_image_name img),
       Printed (''[INFO] Mirror image: '' @ m),
       Printed (''[INFO] Pulling image: '' @ m),
       Invoked [''docker'', ''pull'', m],
       Printed ''[SUCCESS] Pull completed'',
       Printed (''[INFO] Tagging: '' @ m @ '' -> '' @ t),
       Invoked [''docker'', ''tag'', m, t],
       Printed (''[ERROR] Exception occurred: '' @ msg)])"
  using mirror_nonempty [OF m] pull tag unfolding t
  by (simp add: accelerate_pull_def accelerate_pull_body_def Let_def m pull_image_def tag_image_def
      print_pair run_command_completed run_command_raised)

lemma accelerate_pull_no_cleanup:
  assumes m: "convert_to_mirror_image (normalize_image_name img) = Some m"
    and pull: "rt [''docker'', ''pull'', m] w = (Completed 0 out err, w1)"
    and t: "t = (if CHR ''/'' \<in> set img then img else normalize_image_name img)"
    and tag: "rt [''docker'', ''tag'', m, t] w1 = (Completed rc2 out2 err2, w2)"
    and same: "m = t"
  shows "accelerate_pull rt img (w, ev) =
    (True, w2, ev @
      [Printed (''[INFO] Original image: '' @ img),
       Printed (''[INFO] Normalized: '' @ normalize_image_name img),
       Printed (''[INFO] Mirror image: '' @ m),
       Printed (''[INFO] Pulling image: '' @ m),
       Invoked [''docker'', ''pull'', m],
       Printed ''[SUCCESS] Pull completed'',
       Printed (''[INFO] Tagging: '' @ m @ '' -> '' @ t),
       Invoked [''docker'', ''tag'', m, t],
       Printed (if rc2 \<noteq> 0 then ''[WARNING] Rename warning: '' @ err2
                else ''[SUCCESS] Rename completed''),
       Printed ([CHR 0x0A] @ ''[SUCCESS] Image '' @ [CHR 0x27] @ t @ [CHR 0x27]
                @ '' pulled and configured successfully!'')])"
  using mirror_nonempty [OF m] pull tag same unfolding t
  by (simp add: accelerate_pull_def accelerate_pull_body_def Let_def m pull_image_def tag_image_def
      print_pair run_command_completed)

lemma accelerate_pull_cleanup:
  assumes m: "convert_to_mirror_image (normalize_image_name img) = Some m"
    and pull: "rt [''docker'', ''pull'', m] w = (Completed 0 out err, w1)"
    and t: "t = (if CHR ''/'' \<in> set img then img else normalize_image_name img)"
    and tag: "rt [''docker'', ''tag'', m, t] w1 = (Completed rc2 out2 err2, w2)"
    and differ: "m \<noteq> t"
    and rmi: "rt [''docker'', ''rmi'', m] w2 = (Completed rc3 out3 err3, w3)"
  shows "accelerate_pull rt img (w, ev) =
    (True, w3, ev @
      [Printed (''[INFO] Original image: '' @ img),
       Printed (''[INFO] Normalized: '' @ normalize_image_name img),
       Printed (''[INFO] Mirror image: '' @ m),
       Printed (''[INFO] Pulling image: '' @ m),
       Invoked [''docker'', ''pull'', m],
       Printed ''[SUCCESS] Pull completed'',
       Printed (''[INFO] Tagging: '' @ m @ '' -> '' @ t),
       Invoked [''docker'', ''tag'', m, t],
       Printed (if rc2 \<noteq> 0 then ''[WARNING] Rename warning: '' @ err2
                else ''[SUCCESS] Rename completed''),
       Printed (''[INFO] Removing mirror tag: '' @ m),
       Invoked [''docker'', ''rmi'', m],
       Printed (if rc3 \<noteq> 0 then ''[WARNING] Cleanup warning: '' @ err3
                else ''[SUCCESS] Cleanup completed''),
       Printed ([CHR 0x0A] @ ''[SUCCESS] Image '' @ [CHR 0x27] @ t @ [CHR 0x27]
                @ '' pulled and configured successfully!'')])"
  using mirror_nonempty [OF m] pull tag differ rmi unfolding t
  by (simp add: accelerate_pull_def accelerate_pull_body_def Let_def m pull_image_def tag_image_def
      remove_image_def print_pair run_command_completed)

lemma accelerate_pull_cleanup_raised:
  assumes m: "convert_to_mirror_image (normalize_image_name img) = Some m"
    and pull: "rt [''docker'', ''pull'', m] w = (Completed 0 out err, w1)"
    and t: "t = (if CHR ''/'' \<in> set img then img else normalize_image_name img)"
    and tag: "rt [''docker'', ''tag'', m, t] w1 = (Completed rc2 out2 err2, w2)"
    and differ: "m \<noteq> t"
    and rmi: "rt [''docker'', ''rmi'', m] w2 = (Raised msg, w3)"
  shows "accelerate_pull rt img (w, ev) =
    (False, w3, ev @
      [Printed (''[INFO] Original image: '' @ img),
       Printed (''[INFO] Normalized: '' @ normalize_image_name img),
       Printed (''[INFO] Mirror image: '' @ m),
       Printed (''[INFO] Pulling image: '' @ m),
       Invoked [''docker'', ''pull'', m],
       Printed ''[SUCCESS] Pull completed'',
       Printed (''[INFO] Tagging: '' @ m @ '' -> '' @ t),
       Invoked [''docker'', ''tag'', m, t],
       Printed (if rc2 \<noteq> 0 then ''[WARNING] Rename warning: '' @ err2
                else ''[SUCCESS] Rename completed''),
       Printed (''[INFO] Removing mirror tag: '' @ m),
       Invoked [''docker'', ''rmi'', m],
       Printed (''[ERROR] Exception occurred: '' @ msg)])"
  using mirror_nonempty [OF m] pull tag differ rmi unfolding t
  by (simp add: accelerate_pull_def accelerate_pull_body_def Let_def m pull_image_def tag_image_def
      remove_image_def print_pair run_command_completed
      run_command_raised)

text \<open>The loop of \<open>main\<close> against the batch of the specification.\<close>

lemma batch_outcomes_length:
  "batch_outcomes rt images st = (outs, st') \<Longrightarrow> length outs = length images"
proof (induction images arbitrary: st outs)
  case Nil
  then show ?case by simp
next
  case (Cons img images)
  then show ?case by (auto split: prod.splits)
qed

lemma process_images_batch:
  "batch_outcomes rt images st = (outs, st') \<Longrightarrow>
   process_images rt images (s, f) st =
     ((s + length (filter id outs), f + length (filter Not outs)), st')"
proof (induction images arbitrary: st outs st' s f)
  case Nil
  then show ?case by simp
next
  case (Cons img images)
  obtain ok st1 where a: "accelerate_pull rt img (print ([CHR 0x0A] @ replicate 60 CHR ''='') st) = (ok, st1)"
    by (rule prod.exhaust)
  obtain oks st2 where b: "batch_outcomes rt images st1 = (oks, st2)"
    by (rule prod.exhaust)
  from Cons.prems a b have outs: "outs = ok # oks" and st': "st' = st2" by simp_all
  show ?case
    using Cons.IH [OF b, of "s + 1" f] Cons.IH [OF b, of s "f + 1"] a
    by (simp add: outs st')
qed

lemma count_outcomes:
  "length (filter id outs) + length (filter Not outs) = length outs"
  by (induction outs) simp_all

lemma no_failure_iff: "length (filter Not outs) = 0 \<longleftrightarrow> False \<notin> set outs"
  by (induction outs) auto

lemma accelerate_pull_all_complete:
  assumes total: "\<forall>command w. \<exists>rc out err w'. rt command w = (Completed rc out err, w')"
    and pulls: "\<forall>ref w. \<exists>out err w'. rt [''docker'', ''pull'', ref] w = (Completed 0 out err, w')"
  shows "fst (accelerate_pull rt img st) = True"
proof -
  obtain w ev where st: "st = (w, ev)" by force
  obtain m where m: "convert_to_mirror_image (normalize_image_name img) = Some m"
    by (rule resolve_ok)
  define t where "t = (if CHR ''/'' \<in> set img then img else normalize_image_name img)"
  from pulls obtain out err w1 where
    pull: "rt [''docker'', ''pull'', m] w = (Completed 0 out err, w1)" by blast
  from total obtain rc2 out2 err2 w2 where
    tag: "rt [''docker'', ''tag'', m, t] w1 = (Completed rc2 out2 err2, w2)" by blast
  from total obtain rc3 out3 err3 w3 where
    rmi: "rt [''docker'', ''rmi'', m] w2 = (Completed rc3 out3 err3, w3)" by blast
  show ?thesis
  proof (cases "m = t")
    case True
    show ?thesis
      unfolding st accelerate_pull_no_cleanup [OF m pull t_def tag True] by simp
  next
    case False
    show ?thesis
      unfolding st accelerate_pull_cleanup [OF m pull t_def tag False rmi] by simp
  qed
qed

lemma batch_outcomes_all_complete:
  assumes total: "\<forall>command w. \<exists>rc out err w'. rt command w = (Completed rc out err, w')"
    and pulls: "\<forall>ref w. \<exists>out err w'. rt [''docker'', ''pull'', ref] w = (Completed 0 out err, w')"
  shows "batch_outcomes rt images st = (outs, st') \<Longrightarrow> False \<notin> set outs"
proof (induction images arbitrary: st outs st')
  case Nil
  then show ?case by simp
next
  case (Cons img images)
  obtain ok st1 where a: "accelerate_pull rt img (print ([CHR 0x0A] @ replicate 60 CHR ''='') st) = (ok, st1)"
    by (rule prod.exhaust)
  obtain oks st2 where b: "batch_outcomes rt images st1 = (oks, st2)"
    by (rule prod.exhaust)
  from Cons.prems a b have outs: "outs = ok # oks" by simp
  have "ok" using accelerate_pull_all_complete [OF total pulls, of img] a
    by (metis fst_conv)
  with Cons.IH [OF b] show ?case by (simp add: outs)
qed

section \<open>The claims\<close>

text \<open>
  C1. For every string \<open>raw\<close>, \<open>normalize_image_name\<close> applies exactly one of three rules:
  without a \<^verbatim>\<open>/\<close> the result is \<^verbatim>\<open>docker.io/library/\<close> followed by \<open>raw\<close>; with exactly one
  \<^verbatim>\<open>/\<close> and a first segment (the characters before the first \<^verbatim>\<open>/\<close>) holding neither \<^verbatim>\<open>.\<close>
  nor \<^verbatim>\<open>:\<close> it is \<^verbatim>\<open>docker.io/\<close> followed by \<open>raw\<close>; in every other case it is \<open>raw\<close>.
\<close>

theorem normalize_image_name_rules:
  "normalize_image_name raw =
     (if CHR ''/'' \<notin> set raw then ''docker.io/library/'' @ raw
      else if count_list raw CHR ''/'' = 1
              \<and> CHR ''.'' \<notin> set (takeWhile (\<lambda>c. c \<noteq> CHR ''/'') raw)
              \<and> CHR '':'' \<notin> set (takeWhile (\<lambda>c. c \<noteq> CHR ''/'') raw)
           then ''docker.io/'' @ raw
      else raw)"
  by (simp add: normalize_image_name_def Let_def split_on_length split_on_first)

text \<open>
  C2. For a reference \<open>registry/rest\<close>, cut at its first \<^verbatim>\<open>/\<close>, with \<open>rest\<close> not empty: when
  \<open>registry\<close> is a key of the mirror table, the result is the key's mirror prefix, a \<^verbatim>\<open>/\<close> and
  \<open>rest\<close>; when it is not, and the reference does not begin with \<^verbatim>\<open>m.daocloud.io/\<close>, the
  result is \<^verbatim>\<open>m.daocloud.io/\<close> followed by the whole reference.
\<close>

theorem convert_to_mirror_image_known_or_fallback:
  assumes "CHR ''/'' \<notin> set registry" and "rest \<noteq> []"
  shows "(\<forall>mirror_prefix. REGISTRY_MIRRORS registry = Some mirror_prefix \<longrightarrow>
            convert_to_mirror_image (registry @ ''/'' @ rest) = Some (mirror_prefix @ ''/'' @ rest))
       \<and> (REGISTRY_MIRRORS registry = None
            \<and> \<not> prefix ''m.daocloud.io/'' (registry @ ''/'' @ rest) \<longrightarrow>
            convert_to_mirror_image (registry @ ''/'' @ rest)
              = Some (''m.daocloud.io/'' @ registry @ ''/'' @ rest))"
  using convert_slash [OF assms(1), of rest] assms(2) by simp

text \<open>The unknown registry of the specification and a key of the table.\<close>

theorem convert_to_mirror_image_known_or_fallback_witness:
  "convert_to_mirror_image ''example.com/foo:1'' = Some ''m.daocloud.io/example.com/foo:1''
   \<and> convert_to_mirror_image ''docker.io/library/redis:7''
       = Some ''m.daocloud.io/docker.io/library/redis:7''"
  using convert_to_mirror_image_known_or_fallback [of "''example.com''" "''foo:1''"]
    convert_to_mirror_image_known_or_fallback [of "''docker.io''" "''library/redis:7''"]
  by (simp add: REGISTRY_MIRRORS_def)

text \<open>
  C3. When the pull of the mirror reference exits with 0, the next command is the tag of the
  mirror reference, and its target is the original input as it is when that holds a \<^verbatim>\<open>/\<close>,
  and the normalised name when it does not. Nothing follows but, at most, the removal of
  the mirror tag.
\<close>

theorem accelerate_pull_tag_target:
  assumes m: "convert_to_mirror_image (normalize_image_name img) = Some mirror"
    and pull: "rt [''docker'', ''pull'', mirror] w = (Completed 0 out err, w1)"
  shows "\<exists>rest.
    invoked (snd (snd (accelerate_pull rt img (w, ev)))) =
      invoked ev @
      [[''docker'', ''pull'', mirror],
       [''docker'', ''tag'', mirror,
        if CHR ''/'' \<in> set img then img else normalize_image_name img]] @ rest
    \<and> (rest = [] \<or> rest = [[''docker'', ''rmi'', mirror]])"
proof -
  define t where "t = (if CHR ''/'' \<in> set img then img else normalize_image_name img)"
  obtain o2 w2 where tag: "rt [''docker'', ''tag'', mirror, t] w1 = (o2, w2)" by force
  obtain o3 w3 where rmi: "rt [''docker'', ''rmi'', mirror] w2 = (o3, w3)" by force
  have "\<exists>rest.
    invoked (snd (snd (accelerate_pull rt img (w, ev)))) =
      invoked ev @ [[''docker'', ''pull'', mirror], [''docker'', ''tag'', mirror, t]] @ rest
    \<and> (rest = [] \<or> rest = [[''docker'', ''rmi'', mirror]])"
  proof (cases o2)
    case (Raised msg)
    show ?thesis
      using accelerate_pull_tag_raised [OF m pull t_def tag [unfolded Raised], of ev]
      by (simp add: invoked_append)
  next
    case c2: (Completed rc2 out2 err2)
    note tag2 = tag [unfolded c2]
    show ?thesis
    proof (cases "mirror = t")
      case True
      show ?thesis
        using accelerate_pull_no_cleanup [OF m pull t_def tag2 True, of ev]
        by (simp add: invoked_append)
    next
      case False
      show ?thesis
      proof (cases o3)
        case (Raised msg)
        show ?thesis
          using accelerate_pull_cleanup_raised
            [OF m pull t_def tag2 False rmi [unfolded Raised], of ev]
          by (simp add: invoked_append)
      next
        case (Completed rc3 out3 err3)
        show ?thesis
          using accelerate_pull_cleanup
            [OF m pull t_def tag2 False rmi [unfolded Completed], of ev]
          by (simp add: invoked_append)
      qed
    qed
  qed
  then show ?thesis unfolding t_def .
qed

text \<open>A bare name: the tag goes to the normalised name, not to the short one.\<close>

theorem accelerate_pull_tag_target_witness:
  "\<exists>rest.
     invoked (snd (snd (accelerate_pull flaky_runtime ''nginx:latest'' ((), [])))) =
       [[''docker'', ''pull'', ''m.daocloud.io/docker.io/library/nginx:latest''],
        [''docker'', ''tag'', ''m.daocloud.io/docker.io/library/nginx:latest'',
         ''docker.io/library/nginx:latest'']] @ rest"
proof -
  have m: "convert_to_mirror_image (normalize_image_name ''nginx:latest'')
      = Some ''m.daocloud.io/docker.io/library/nginx:latest''"
    by (simp add: normalize_image_name_def convert_to_mirror_image_def REGISTRY_MIRRORS_def)
  have pull: "flaky_runtime [''docker'', ''pull'', ''m.daocloud.io/docker.io/library/nginx:latest''] ()
      = (Completed 0 ''pulled'' [], ())"
    by (simp add: flaky_runtime_def)
  have n: "normalize_image_name ''nginx:latest'' = ''docker.io/library/nginx:latest''"
    by (simp add: normalize_image_name_def)
  from accelerate_pull_tag_target [where rt = flaky_runtime and w = "()" and ev = "[]", OF m pull]
  show ?thesis by (auto simp: n)
qed

text \<open>
  C4, as stated: a reference with nothing after its first \<^verbatim>\<open>/\<close> resolves to nothing. It
  fails at \<^verbatim>\<open>docker.io/\<close>, which normalisation leaves as it is: the result is the mirror prefix.
\<close>

theorem convert_to_mirror_image_empty_rest_counterexample:
  "normalize_image_name ''docker.io/'' = ''docker.io/''
   \<and> convert_to_mirror_image ''docker.io/'' = Some ''m.daocloud.io/docker.io''
   \<and> convert_to_mirror_image ''docker.io/'' \<noteq> None"
  by (simp add: normalize_image_name_def convert_to_mirror_image_def REGISTRY_MIRRORS_def)

text \<open>
  C4, amended. Mirror resolution gives nothing exactly when the reference has no \<^verbatim>\<open>/\<close>. For
  a reference \<open>registry/\<close> with nothing after its first \<^verbatim>\<open>/\<close> it succeeds: with the mirror
  prefix alone (no \<^verbatim>\<open>/\<close> after it) when \<open>registry\<close> is a key of the table, with the reference
  unchanged when it is \<^verbatim>\<open>m.daocloud.io/\<close>, and with \<^verbatim>\<open>m.daocloud.io/\<close> followed by the reference
  otherwise.
\<close>

theorem convert_to_mirror_image_absent_iff:
  "(convert_to_mirror_image img = None \<longleftrightarrow> CHR ''/'' \<notin> set img)
   \<and> (CHR ''/'' \<notin> set registry \<longrightarrow>
        convert_to_mirror_image (registry @ ''/'') =
          Some (case REGISTRY_MIRRORS registry of
                  Some mirror_prefix \<Rightarrow> mirror_prefix
                | None \<Rightarrow> if registry = ''m.daocloud.io'' then ''m.daocloud.io/''
                           else ''m.daocloud.io/'' @ registry @ ''/''))"
proof (intro conjI impI)
  show "convert_to_mirror_image img = None \<longleftrightarrow> CHR ''/'' \<notin> set img"
    by (rule convert_None_iff)
next
  assume r: "CHR ''/'' \<notin> set registry"
  have "prefix ''m.daocloud.io/'' (registry @ ''/'') \<longleftrightarrow> registry = ''m.daocloud.io''"
  proof
    assume "prefix ''m.daocloud.io/'' (registry @ ''/'')"
    then obtain t where t: "registry @ ''/'' = ''m.daocloud.io'' @ CHR ''/'' # t"
      by (auto simp: prefix_def)
    have "takeWhile (\<lambda>c. c \<noteq> CHR ''/'') (registry @ ''/'') = registry"
      using r by (simp add: takeWhile_append)
    moreover have "takeWhile (\<lambda>c. c \<noteq> CHR ''/'') (''m.daocloud.io'' @ CHR ''/'' # t) = ''m.daocloud.io''"
      by simp
    ultimately show "registry = ''m.daocloud.io''" using t by simp
  next
    assume "registry = ''m.daocloud.io''"
    then show "prefix ''m.daocloud.io/'' (registry @ ''/'')" by simp
  qed
  then show "convert_to_mirror_image (registry @ ''/'') =
          Some (case REGISTRY_MIRRORS registry of
                  Some mirror_prefix \<Rightarrow> mirror_prefix
                | None \<Rightarrow> if registry = ''m.daocloud.io'' then ''m.daocloud.io/''
                           else ''m.daocloud.io/'' @ registry @ ''/'')"
    using convert_slash [OF r, of "[]"] by (simp split: option.split)
qed

text \<open>A key of the table, an unknown registry, and a reference without \<^verbatim>\<open>/\<close>.\<close>

theorem convert_to_mirror_image_absent_iff_witness:
  "convert_to_mirror_image ''quay.io/'' = Some ''m.daocloud.io/quay.io''
   \<and> convert_to_mirror_image ''example.com/'' = Some ''m.daocloud.io/example.com/''
   \<and> convert_to_mirror_image ''nginx'' = None"
  using convert_to_mirror_image_absent_iff [of "''nginx''" "''quay.io''"]
    convert_to_mirror_image_absent_iff [of "''nginx''" "''example.com''"]
  by (simp add: REGISTRY_MIRRORS_def)

text \<open>
  C5. When the pull of the mirror reference exits with a code other than 0,
  \<open>accelerate_pull\<close> returns \<open>False\<close> and the pull is the only command it runs: neither
  the tag nor the removal of the mirror tag is tried.
\<close>

theorem accelerate_pull_pull_failure:
  assumes m: "convert_to_mirror_image (normalize_image_name img) = Some mirror"
    and pull: "rt [''docker'', ''pull'', mirror] w = (Completed rc out err, w1)"
    and rc: "rc \<noteq> 0"
  shows "fst (accelerate_pull rt img (w, ev)) = False
    \<and> invoked (snd (snd (accelerate_pull rt img (w, ev))))
        = invoked ev @ [[''docker'', ''pull'', mirror]]"
  unfolding accelerate_pull_pull_failed [where rt = rt and w = w, OF m pull rc]
  by (simp add: invoked_append)

text \<open>The image that the first runtime cannot pull.\<close>

theorem accelerate_pull_pull_failure_witness:
  "fst (accelerate_pull flaky_runtime ''missing'' ((), [])) = False
   \<and> invoked (snd (snd (accelerate_pull flaky_runtime ''missing'' ((), []))))
       = [[''docker'', ''pull'', ''m.daocloud.io/docker.io/library/missing'']]"
proof -
  have m: "convert_to_mirror_image (normalize_image_name ''missing'')
      = Some ''m.daocloud.io/docker.io/library/missing''"
    by (simp add: normalize_image_name_def convert_to_mirror_image_def REGISTRY_MIRRORS_def)
  have pull: "flaky_runtime [''docker'', ''pull'', ''m.daocloud.io/docker.io/library/missing''] ()
      = (Completed 1 [] ''manifest unknown'', ())"
    by (simp add: flaky_runtime_def)
  have rc: "(1::int) \<noteq> 0" by simp
  from accelerate_pull_pull_failure [where rt = flaky_runtime and w = "()" and ev = "[]", OF m pull rc]
  show ?thesis by simp
qed




text \<open>
  C7. For a batch of one or more images, \<open>main\<close> sends every image through
  \<open>accelerate_pull\<close>, a failed image not stopping the ones after it: there is one outcome
  for each image. The exit status is 1 when some outcome is \<open>False\<close> and 0 when none is;
  the two counts of the summary add up to the number of images; and when every command
  gives a return code and every pull gives 0, the exit status is 0 whatever the tag and
  the removal return.
\<close>

theorem main_batch:
  assumes "images \<noteq> []"
  shows "\<exists>outs st'.
     batch_outcomes rt images (banner st) = (outs, st')
     \<and> length outs = length images
     \<and> main rt (prog # images) st =
         (if False \<in> set outs then 1 else 0,
          summary (length (filter id outs)) (length (filter Not outs)) st')
     \<and> length (filter id outs) + length (filter Not outs) = length images
     \<and> ((\<forall>command w. \<exists>rc out err w'. rt command w = (Completed rc out err, w'))
         \<and> (\<forall>ref w. \<exists>out err w'. rt [''docker'', ''pull'', ref] w = (Completed 0 out err, w'))
         \<longrightarrow> fst (main rt (prog # images) st) = 0)"
proof -
  obtain outs st' where b: "batch_outcomes rt images (banner st) = (outs, st')"
    by (rule prod.exhaust)
  have len: "length outs = length images" using b by (rule batch_outcomes_length)
  have loop: "process_images rt images (0, 0) (banner st) =
      ((length (filter id outs), length (filter Not outs)), st')"
    using process_images_batch [OF b, of 0 0] by simp
  have "main rt (prog # images) st =
      (case process_images rt images (0, 0) (banner st) of
         ((success_count, failed_count), st') \<Rightarrow>
           (if failed_count = 0 then 0 else 1, summary success_count failed_count st'))"
    using assms by (cases images) (simp_all add: main_def Let_def)
  then have m: "main rt (prog # images) st =
         (if False \<in> set outs then 1 else 0,
          summary (length (filter id outs)) (length (filter Not outs)) st')"
    unfolding loop using no_failure_iff [of outs] by (cases "False \<in> set outs") simp_all
  have ok: "fst (main rt (prog # images) st) = 0"
    if "\<forall>command w. \<exists>rc out err w'. rt command w = (Completed rc out err, w')"
      and "\<forall>ref w. \<exists>out err w'. rt [''docker'', ''pull'', ref] w = (Completed 0 out err, w')"
    using batch_outcomes_all_complete [OF that b] by (simp add: m)
  show ?thesis
    using b len m ok count_outcomes [of outs] by auto
qed

text \<open>Two images, of which one cannot be pulled; and the same two images on a runtime
  whose tag and removal always fail.\<close>

theorem main_batch_witness:
  "fst (main flaky_runtime [''accelerate_docker_pull.py'', ''nginx'', ''missing''] ((), [])) = 1
   \<and> fst (main warning_runtime [''accelerate_docker_pull.py'', ''nginx'', ''missing''] ((), [])) = 0"
proof -
  have ne: "[''nginx'', ''missing''] \<noteq> []" by simp
  have total: "\<forall>command w. \<exists>rc out err w'. warning_runtime command w = (Completed rc out err, w')"
    by (simp add: warning_runtime_def)
  have pulls: "\<forall>ref w. \<exists>out err w'.
      warning_runtime [''docker'', ''pull'', ref] w = (Completed 0 out err, w')"
    by (simp add: warning_runtime_def)
  have second: "fst (main warning_runtime [''accelerate_docker_pull.py'', ''nginx'', ''missing''] ((), [])) = 0"
    using main_batch [OF ne, of warning_runtime "((), [])" "''accelerate_docker_pull.py''"] total pulls
    by blast
  have m2: "convert_to_mirror_image (normalize_image_name ''missing'')
      = Some ''m.daocloud.io/docker.io/library/missing''"
    by (simp add: normalize_image_name_def convert_to_mirror_image_def REGISTRY_MIRRORS_def)
  have p2: "flaky_runtime [''docker'', ''pull'', ''m.daocloud.io/docker.io/library/missing''] ()
      = (Completed 1 [] ''manifest unknown'', ())"
    by (simp add: flaky_runtime_def)
  note bad = accelerate_pull_pull_failed [where rt = flaky_runtime and w = "()", OF m2 p2, simplified]
  obtain outs st' where
    b: "batch_outcomes flaky_runtime [''nginx'', ''missing''] (banner ((), [])) = (outs, st')"
    and mn: "main flaky_runtime (''accelerate_docker_pull.py'' # [''nginx'', ''missing'']) ((), []) =
         (if False \<in> set outs then 1 else 0,
          summary (length (filter id outs)) (length (filter Not outs)) st')"
    using main_batch [OF ne, of flaky_runtime "((), [])" "''accelerate_docker_pull.py''"]
    by blast
  have "False \<in> set outs"
    using b by (auto split: prod.splits simp: print_pair bad)
  then have first: "fst (main flaky_runtime [''accelerate_docker_pull.py'', ''nginx'', ''missing''] ((), [])) = 1"
    using mn by simp
  from first second show ?thesis by simp
qed

text \<open>
  C8. Mirror resolution is idempotent on its own output: when \<open>convert_to_mirror_image x\<close>
  is defined, normalising its value and resolving again gives the same value; no second
  \<^verbatim>\<open>m.daocloud.io/\<close> is put in front.
\<close>

theorem convert_to_mirror_image_idempotent:
  assumes "convert_to_mirror_image x = Some y"
  shows "convert_to_mirror_image (normalize_image_name y) = convert_to_mirror_image x"
proof -
  have p: "prefix ''m.daocloud.io/'' y" using assms by (rule convert_prefix)
  show ?thesis
    unfolding normalize_mirrored [OF p] convert_mirrored [OF p] assms ..
qed

text \<open>An image of the default registry, resolved twice.\<close>

theorem convert_to_mirror_image_idempotent_witness:
  "convert_to_mirror_image ''docker.io/library/nginx:latest''
     = Some ''m.daocloud.io/docker.io/library/nginx:latest''
   \<and> convert_to_mirror_image (normalize_image_name ''m.daocloud.io/docker.io/library/nginx:latest'')
     = Some ''m.daocloud.io/docker.io/library/nginx:latest''"
proof -
  have h: "convert_to_mirror_image ''docker.io/library/nginx:latest''
     = Some ''m.daocloud.io/docker.io/library/nginx:latest''"
    by (simp add: convert_to_mirror_image_def REGISTRY_MIRRORS_def)
  from convert_to_mirror_image_idempotent [OF h] h show ?thesis by simp
qed




text \<open>
  C10. For every string \<open>raw\<close>, the normalised name holds a \<^verbatim>\<open>/\<close>; so mirror resolution of
  it is never \<open>None\<close>, nor the empty string, and \<open>accelerate_pull\<close> never takes its
  unsupported-source branch: whatever the runtime does, the line of that branch is not printed.
\<close>

theorem normalize_always_resolves:
  "CHR ''/'' \<in> set (normalize_image_name raw)
   \<and> convert_to_mirror_image (normalize_image_name raw) \<noteq> None
   \<and> convert_to_mirror_image (normalize_image_name raw) \<noteq> Some []
   \<and> Printed (''[ERROR] Unsupported image source '' @ [CHR 0x27] @ raw @ [CHR 0x27])
        \<notin> set (snd (snd (accelerate_pull rt raw (w, []))))"
proof (intro conjI)
  show "CHR ''/'' \<in> set (normalize_image_name raw)" by (rule normalize_has_slash)
  show "convert_to_mirror_image (normalize_image_name raw) \<noteq> None"
    by (simp add: convert_None_iff normalize_has_slash)
  show "convert_to_mirror_image (normalize_image_name raw) \<noteq> Some []"
    using mirror_nonempty [of "normalize_image_name raw" "[]"] by blast
  obtain m where m: "convert_to_mirror_image (normalize_image_name raw) = Some m"
    by (rule resolve_ok)
  define t where "t = (if CHR ''/'' \<in> set raw then raw else normalize_image_name raw)"
  obtain o1 w1 where pull: "rt [''docker'', ''pull'', m] w = (o1, w1)" by force
  obtain o2 w2 where tag: "rt [''docker'', ''tag'', m, t] w1 = (o2, w2)" by force
  obtain o3 w3 where rmi: "rt [''docker'', ''rmi'', m] w2 = (o3, w3)" by force
  show "Printed (''[ERROR] Unsupported image source '' @ [CHR 0x27] @ raw @ [CHR 0x27])
        \<notin> set (snd (snd (accelerate_pull rt raw (w, []))))"
  proof (cases o1)
    case (Raised msg)
    show ?thesis
      using accelerate_pull_pull_raised [where rt = rt and w = w and ev = "[]", OF m pull [unfolded Raised]] by simp
  next
    case c1: (Completed rc out err)
    show ?thesis
    proof (cases "rc = 0")
      case False
      show ?thesis
        using accelerate_pull_pull_failed [where rt = rt and w = w and ev = "[]", OF m pull [unfolded c1] False] by simp
    next
      case True
      note pull0 = pull [unfolded c1 True]
      show ?thesis
      proof (cases o2)
        case (Raised msg)
        show ?thesis
          using accelerate_pull_tag_raised [OF m pull0 t_def tag [unfolded Raised], of "[]"]
          by simp
      next
        case c2: (Completed rc2 out2 err2)
        note tag2 = tag [unfolded c2]
        show ?thesis
        proof (cases "m = t")
          case True
          show ?thesis
            using accelerate_pull_no_cleanup [OF m pull0 t_def tag2 True, of "[]"] by simp
        next
          case False
          show ?thesis
          proof (cases o3)
            case (Raised msg)
            show ?thesis
              using accelerate_pull_cleanup_raised
                [OF m pull0 t_def tag2 False rmi [unfolded Raised], of "[]"]
              by simp
          next
            case (Completed rc3 out3 err3)
            show ?thesis
              using accelerate_pull_cleanup
                [OF m pull0 t_def tag2 False rmi [unfolded Completed], of "[]"]
              by simp
          qed
        qed
      qed
    qed
  qed
qed

end
